theory Spec2Isabelle
  imports
    Main
    "HOL-Library.Char_ord"
    "HOL-Library.List_Lexorder"
    "HOL-Library.Monad_Syntax"
begin

section \<open>The agent route: data model\<close>

text \<open>
  The shared types of \<^verbatim>\<open>src/types/agent.ts\<close>. An interface is a record, a union of
  string literals is a datatype, an optional field (\<^verbatim>\<open>due?: string\<close>) is an
  \<open>option\<close>. Field names carry the interface as a prefix where two interfaces share a
  name (\<^verbatim>\<open>id\<close>, \<^verbatim>\<open>status\<close>, ...).

  Strings are \<open>string\<close>; JavaScript's \<^verbatim>\<open><\<close> on strings compares code units from the
  left, which is the lexicographic order of \<open>char list\<close> used below for time stamps.
\<close>

datatype TaskStatus = Backlog | InProgress | Blocked | Done

datatype Level = Low | Medium | High

datatype AutomationStatus = Idle | Scheduled | Running

datatype DecisionStatus = Open | Closed

datatype Role = Assistant | User

record AgentTask =
  task_id :: string
  task_title :: string
  task_description :: string
  task_status :: TaskStatus
  task_priority :: Level
  task_due :: "string option"
  task_owner :: "string option"
  task_tags :: "string list option"

record AgentAutomation =
  automation_id :: string
  automation_name :: string
  automation_cadence :: string
  automation_description :: string
  automation_status :: AutomationStatus
  automation_lastRun :: "string option"
  automation_nextRun :: "string option"

record AgentDecision =
  decision_id :: string
  decision_title :: string
  decision_summary :: string
  decision_impact :: Level
  decision_status :: DecisionStatus
  decision_owner :: "string option"
  decision_due :: "string option"

record AgentWorkspaceState =
  tasks :: "AgentTask list"
  automations :: "AgentAutomation list"
  decisions :: "AgentDecision list"
  insights :: "string list"
  knowledgeHighlights :: "string list"
  updatedAt :: string

record AgentMessage =
  message_id :: string
  role :: Role
  content :: string
  createdAt :: string

record AgentAPIRequest =
  messages :: "AgentMessage list"
  workspace :: AgentWorkspaceState

record AgentAPIResponse =
  response_reply :: string
  response_workspace :: AgentWorkspaceState
  response_actionSummary :: "string list"

text \<open>
  \<^verbatim>\<open>Omit<AgentWorkspaceState, "updatedAt">\<close>, the second argument of
  \<^verbatim>\<open>mergeWorkspace\<close>. The code reads its \<^verbatim>\<open>knowledgeHighlights\<close> through
  \<^verbatim>\<open>??\<close>, so a missing value (\<^verbatim>\<open>undefined\<close> or \<^verbatim>\<open>null\<close>) is a case of the
  model: \<open>None\<close>.
\<close>

record WorkspaceUpdates =
  u_tasks :: "AgentTask list"
  u_automations :: "AgentAutomation list"
  u_decisions :: "AgentDecision list"
  u_insights :: "string list"
  u_knowledgeHighlights :: "string list option"

section \<open>mergeWorkspace\<close>

text \<open>
  \<^verbatim>\<open>
  function mergeWorkspace(prior, updates) {
    return {
      ...prior,
      tasks: updates.tasks,
      automations: updates.automations,
      decisions: updates.decisions,
      insights: updates.insights,
      knowledgeHighlights: updates.knowledgeHighlights ?? prior.knowledgeHighlights,
      updatedAt: new Date().toISOString(),
    };
  }
  \<close>
  The function reads the clock. The reading, \<^verbatim>\<open>new Date().toISOString()\<close> at the
  moment of the call, is the first argument \<open>now\<close> of the model.
\<close>

definition nullish_coalesce :: "'a option \<Rightarrow> 'a \<Rightarrow> 'a" where
  "nullish_coalesce v d = (case v of None \<Rightarrow> d | Some x \<Rightarrow> x)"

definition mergeWorkspace ::
  "string \<Rightarrow> AgentWorkspaceState \<Rightarrow> WorkspaceUpdates \<Rightarrow> AgentWorkspaceState" where
  "mergeWorkspace now prior updates =
     prior\<lparr>tasks := u_tasks updates,
           automations := u_automations updates,
           decisions := u_decisions updates,
           insights := u_insights updates,
           knowledgeHighlights :=
             nullish_coalesce (u_knowledgeHighlights updates) (knowledgeHighlights prior),
           updatedAt := now\<rparr>"

section \<open>JavaScript strings and arrays\<close>

text \<open>
  \<^verbatim>\<open>Array.prototype.join\<close> on an array of strings, and \<^verbatim>\<open>String.prototype.trim\<close>.
  A \<open>char\<close> stands for a code unit below 256, so the white space and line terminators
  that \<^verbatim>\<open>trim\<close> strips are tab, line feed, vertical tab, form feed, carriage return,
  space and the no-break space.
\<close>

fun join :: "string \<Rightarrow> string list \<Rightarrow> string" where
  "join separator [] = ''''"
| "join separator [x] = x"
| "join separator (x # y # ys) = x @ separator @ join separator (y # ys)"

definition is_white_space :: "char \<Rightarrow> bool" where
  "is_white_space c =
     (c = CHR 0x09 \<or> c = CHR 0x0A \<or> c = CHR 0x0B \<or> c = CHR 0x0C \<or> c = CHR 0x0D \<or>
      c = CHR 0x20 \<or> c = CHR 0xA0)"

definition trim :: "string \<Rightarrow> string" where
  "trim s = rev (dropWhile is_white_space (rev (dropWhile is_white_space s)))"

definition newline :: string where
  "newline = [CHR 0x0A]"

text \<open>
  \<^verbatim>\<open>!process.env.OPENAI_API_KEY\<close>: an environment variable is a string or is not set,
  and \<^verbatim>\<open>!\<close> holds of an unset variable and of the empty string.
\<close>

definition falsy :: "string option \<Rightarrow> bool" where
  "falsy v = (case v of None \<Rightarrow> True | Some s \<Rightarrow> s = '''')"

section \<open>The output schema\<close>

text \<open>
  What the language model returns is JSON. No field of the schema is a number, so how a
  number is represented plays no part.
\<close>

datatype json =
    JNull
  | JBool bool
  | JNumber int
  | JString string
  | JArray "json list"
  | JObject "(string \<times> json) list"

text \<open>
  The combinators of \<^verbatim>\<open>zod\<close> that the schema is built from, as parsers: \<open>None\<close> is a
  validation failure, \<open>Some\<close> carries the parsed value. \<^verbatim>\<open>z.object\<close> reads the keys
  it declares and drops every other key; a required key that is missing fails, an
  \<^verbatim>\<open>.optional()\<close> key may be missing but, when present, must validate.
\<close>

definition z_string :: "json \<Rightarrow> string option" where
  "z_string v = (case v of JString s \<Rightarrow> Some s | _ \<Rightarrow> None)"

definition z_enum :: "(string \<times> 'a) list \<Rightarrow> json \<Rightarrow> 'a option" where
  "z_enum literals v = (case v of JString s \<Rightarrow> map_of literals s | _ \<Rightarrow> None)"

definition z_array :: "(json \<Rightarrow> 'a option) \<Rightarrow> json \<Rightarrow> 'a list option" where
  "z_array element v = (case v of JArray vs \<Rightarrow> those (map element vs) | _ \<Rightarrow> None)"

definition z_max :: "nat \<Rightarrow> (json \<Rightarrow> 'a list option) \<Rightarrow> json \<Rightarrow> 'a list option" where
  "z_max n array v =
     (case array v of None \<Rightarrow> None | Some xs \<Rightarrow> if length xs \<le> n then Some xs else None)"

definition z_required :: "(string \<times> json) list \<Rightarrow> string \<Rightarrow> (json \<Rightarrow> 'a option) \<Rightarrow> 'a option" where
  "z_required props key schema = (case map_of props key of None \<Rightarrow> None | Some v \<Rightarrow> schema v)"

definition z_optional ::
  "(string \<times> json) list \<Rightarrow> string \<Rightarrow> (json \<Rightarrow> 'a option) \<Rightarrow> 'a option option" where
  "z_optional props key schema =
     (case map_of props key of None \<Rightarrow> Some None | Some v \<Rightarrow> map_option Some (schema v))"

text \<open>
  The three element schemas, written inline in \<^verbatim>\<open>agentResponseSchema\<close>, and the
  schema itself (lines 22 to 74 of the route).
\<close>

definition task_schema :: "json \<Rightarrow> AgentTask option" where
  "task_schema v =
     (case v of
        JObject props \<Rightarrow> do {
          id' \<leftarrow> z_required props ''id'' z_string;
          title \<leftarrow> z_required props ''title'' z_string;
          description \<leftarrow> z_required props ''description'' z_string;
          status' \<leftarrow> z_required props ''status''
            (z_enum [(''backlog'', Backlog), (''in-progress'', InProgress),
                     (''blocked'', Blocked), (''done'', Done)]);
          priority \<leftarrow> z_required props ''priority''
            (z_enum [(''low'', Low), (''medium'', Medium), (''high'', High)]);
          due \<leftarrow> z_optional props ''due'' z_string;
          owner \<leftarrow> z_optional props ''owner'' z_string;
          tags \<leftarrow> z_optional props ''tags'' (z_array z_string);
          Some \<lparr>task_id = id', task_title = title, task_description = description,
                task_status = status', task_priority = priority, task_due = due,
                task_owner = owner, task_tags = tags\<rparr>
        }
      | _ \<Rightarrow> None)"

definition automation_schema :: "json \<Rightarrow> AgentAutomation option" where
  "automation_schema v =
     (case v of
        JObject props \<Rightarrow> do {
          id' \<leftarrow> z_required props ''id'' z_string;
          name \<leftarrow> z_required props ''name'' z_string;
          cadence \<leftarrow> z_required props ''cadence'' z_string;
          description \<leftarrow> z_required props ''description'' z_string;
          status' \<leftarrow> z_required props ''status''
            (z_enum [(''idle'', Idle), (''scheduled'', Scheduled), (''running'', Running)]);
          lastRun \<leftarrow> z_optional props ''lastRun'' z_string;
          nextRun \<leftarrow> z_optional props ''nextRun'' z_string;
          Some \<lparr>automation_id = id', automation_name = name, automation_cadence = cadence,
                automation_description = description, automation_status = status',
                automation_lastRun = lastRun, automation_nextRun = nextRun\<rparr>
        }
      | _ \<Rightarrow> None)"

definition decision_schema :: "json \<Rightarrow> AgentDecision option" where
  "decision_schema v =
     (case v of
        JObject props \<Rightarrow> do {
          id' \<leftarrow> z_required props ''id'' z_string;
          title \<leftarrow> z_required props ''title'' z_string;
          summary \<leftarrow> z_required props ''summary'' z_string;
          impact \<leftarrow> z_required props ''impact''
            (z_enum [(''low'', Low), (''medium'', Medium), (''high'', High)]);
          status' \<leftarrow> z_required props ''status''
            (z_enum [(''open'', Open), (''closed'', Closed)]);
          owner \<leftarrow> z_optional props ''owner'' z_string;
          due \<leftarrow> z_optional props ''due'' z_string;
          Some \<lparr>decision_id = id', decision_title = title, decision_summary = summary,
                decision_impact = impact, decision_status = status', decision_owner = owner,
                decision_due = due\<rparr>
        }
      | _ \<Rightarrow> None)"

record AgentResult =
  reply :: string
  result_tasks :: "AgentTask list"
  result_automations :: "AgentAutomation list"
  result_decisions :: "AgentDecision list"
  result_insights :: "string list"
  actionSummary :: "string list"

definition agentResponseSchema :: "json \<Rightarrow> AgentResult option" where
  "agentResponseSchema v =
     (case v of
        JObject props \<Rightarrow> do {
          reply' \<leftarrow> z_required props ''reply'' z_string;
          tasks' \<leftarrow> z_required props ''tasks'' (z_max 12 (z_array task_schema));
          automations' \<leftarrow> z_required props ''automations'' (z_max 6 (z_array automation_schema));
          decisions' \<leftarrow> z_required props ''decisions'' (z_max 8 (z_array decision_schema));
          insights' \<leftarrow> z_required props ''insights'' (z_max 8 (z_array z_string));
          actionSummary' \<leftarrow> z_required props ''actionSummary'' (z_array z_string);
          Some \<lparr>reply = reply', result_tasks = tasks', result_automations = automations',
                result_decisions = decisions', result_insights = insights',
                actionSummary = actionSummary'\<rparr>
        }
      | _ \<Rightarrow> None)"

section \<open>The collaborators of the handler\<close>

text \<open>
  Every call the handler makes to something outside itself is recorded, in order of
  execution: the handler returns its response together with this list of calls.
\<close>

datatype GenerationError =
    UpstreamFailure string
  | SchemaViolation json

datatype Call =
    RequestJson
  | BuildSystemPrompt AgentWorkspaceState
  | SearchKnowledgeBase string "string option"
  | FormatConversationHistory "AgentMessage list"
  | GenerateObject string string
  | NewDate
  | ConsoleError string GenerationError

record KnowledgeEntry =
  entry_title :: string
  entry_domain :: string
  entry_summary :: string
  entry_takeaways :: "string list"

text \<open>
  The corpus of \<^verbatim>\<open>@/lib/knowledge-base\<close> and how it scores and cuts its results are
  parameters.
\<close>

record KnowledgeBase =
  corpus :: "KnowledgeEntry list"
  relevance :: "string \<Rightarrow> KnowledgeEntry \<Rightarrow> nat"
  max_results :: nat

text \<open>
  Modelled from the spec: \<^verbatim>\<open>searchKnowledgeBase\<close> of \<^verbatim>\<open>@/lib/knowledge-base\<close> is
  not among the sources. Section 4.2 of the spec gives its contract:
  \<^verbatim>\<open>search(query, filter?: domain) -> ordered list<KnowledgeEntry>\<close>, deterministic given
  corpus and query, at most a small fixed number of entries ranked by relevance, and an
  empty or absent query does not fail but yields an empty or low-relevance list.
\<close>

definition searchKnowledgeBase ::
  "KnowledgeBase \<Rightarrow> string \<Rightarrow> string option \<Rightarrow> KnowledgeEntry list" where
  "searchKnowledgeBase kb query domain_filter =
     take (max_results kb)
       (rev (sort_key (relevance kb query)
          (filter (\<lambda>entry. case domain_filter of None \<Rightarrow> True | Some d \<Rightarrow> entry_domain entry = d)
             (corpus kb))))"

text \<open>
  What the handler runs in: the process environment, the clock, the language model behind
  \<^verbatim>\<open>generateObject\<close>, and the helpers of \<^verbatim>\<open>@/lib\<close> that are not among the
  sources and that no statement below is about (\<^verbatim>\<open>buildSystemPrompt\<close>,
  \<^verbatim>\<open>formatConversationHistory\<close>: functions from their argument to a string).
  \<open>clock\<close> is the value of \<^verbatim>\<open>new Date().toISOString()\<close> when the merge reads it.
  \<open>languageModel\<close> takes the system prompt and the prompt and gives the decoded JSON of
  the model's answer, or the cause of the failure when the call fails or the answer is
  not JSON.
\<close>

record Env =
  OPENAI_API_KEY :: "string option"
  clock :: string
  languageModel :: "string \<Rightarrow> string \<Rightarrow> string + json"
  buildSystemPrompt :: "AgentWorkspaceState \<Rightarrow> string"
  formatConversationHistory :: "AgentMessage list \<Rightarrow> string"
  knowledgeBase :: KnowledgeBase

text \<open>
  Modelled from the spec: \<^verbatim>\<open>generateObject\<close> belongs to the \<^verbatim>\<open>ai\<close> package, which
  is not among the sources. Section 4.4 of the spec gives its contract: it calls the
  model with the system instructions and the prompt, validates the answer against the
  schema it is given, and either returns a schema-valid object or fails; it never returns
  a partially valid object. The schema is the route's own \<open>agentResponseSchema\<close>. The
  decoding parameters the route passes (model \<^verbatim>\<open>gpt-4.1-mini\<close>, temperature 0.6, at
  most 900 output tokens) are constants and belong to \<open>languageModel\<close>.
\<close>

definition generateObject :: "Env \<Rightarrow> string \<Rightarrow> string \<Rightarrow> GenerationError + AgentResult" where
  "generateObject env system prompt =
     (case languageModel env system prompt of
        Inl cause \<Rightarrow> Inl (UpstreamFailure cause)
      | Inr output \<Rightarrow>
          (case agentResponseSchema output of
             None \<Rightarrow> Inl (SchemaViolation output)
           | Some object \<Rightarrow> Inr object))"

section \<open>buildPromptPayload\<close>

text \<open>
  \<^verbatim>\<open>
  const latestUserMessage = [...request.messages]
    .reverse()
    .find((message) => message.role === "user");
  const knowledgeSuggestions = searchKnowledgeBase(
    latestUserMessage?.content ?? "",
    undefined
  );
  \<close>
  The model returns the prompt and the two calls made on the way.
\<close>

definition latestUserMessage :: "AgentAPIRequest \<Rightarrow> AgentMessage option" where
  "latestUserMessage request = find (\<lambda>message. role message = User) (rev (messages request))"

definition renderEntry :: "KnowledgeEntry \<Rightarrow> string" where
  "renderEntry entry =
     (let bullets = join newline (map (\<lambda>item. ''- '' @ item) (entry_takeaways entry))
      in entry_title entry @ '' ('' @ entry_domain entry @ '')'' @ newline
           @ entry_summary entry @ newline @ bullets)"

definition buildPromptPayload :: "Env \<Rightarrow> AgentAPIRequest \<Rightarrow> string \<times> Call list" where
  "buildPromptPayload env request =
     (let query = nullish_coalesce (map_option content (latestUserMessage request)) '''';
          knowledgeSuggestions = searchKnowledgeBase (knowledgeBase env) query None;
          knowledgeSummary =
            trim (join (newline @ newline) (map renderEntry knowledgeSuggestions));
          history = formatConversationHistory env (messages request)
      in (join newline
            [''Context from curated knowledge base (use when helpful):'',
             if knowledgeSummary = ''''
               then ''No directly relevant knowledge snippets located.''
               else knowledgeSummary,
             '''',
             ''Conversation history:'',
             history,
             '''',
             ''Instructions:'',
             ''- Return thoughtful updates even if you need clarification; outline reasonable assumptions and next steps.'',
             ''- Maintain continuity. Preserve task IDs and automation IDs from earlier turns.'',
             ''- If something is blocked, surface a direct ask with a suggested owner.''],
          [SearchKnowledgeBase query None, FormatConversationHistory (messages request)]))"

section \<open>POST\<close>

text \<open>
  The request as the handler sees it: \<^verbatim>\<open>await request.json()\<close> throws when the body is
  not JSON, and otherwise its value is used as an \<^verbatim>\<open>AgentAPIRequest\<close> (the cast does
  not check it, and the model takes it to be one).
\<close>

datatype Request = NotJson | Json AgentAPIRequest

datatype ResponseBody = ErrorBody string | AgentResponse AgentAPIResponse

record Response =
  body :: ResponseBody
  status :: nat

text \<open>
  The handler: the credential check, the parse of the body, and the \<^verbatim>\<open>try\<close> block
  whose \<^verbatim>\<open>catch\<close> logs the error and answers 500. The arguments of
  \<^verbatim>\<open>generateObject\<close> are evaluated in the order the object literal lists them:
  \<^verbatim>\<open>buildSystemPrompt\<close>, then \<^verbatim>\<open>buildPromptPayload\<close>.
\<close>

definition POST :: "Env \<Rightarrow> Request \<Rightarrow> Response \<times> Call list" where
  "POST env request =
     (if falsy (OPENAI_API_KEY env) then
        (\<lparr>body = ErrorBody
            ''Missing OPENAI_API_KEY. Set the environment variable to connect the autonomous agent.'',
          status = 500\<rparr>, [])
      else
        (case request of
           NotJson \<Rightarrow> (\<lparr>body = ErrorBody ''Invalid request payload.'', status = 400\<rparr>, [RequestJson])
         | Json payload \<Rightarrow>
             (let system = buildSystemPrompt env (workspace payload);
                  (prompt, lookups) = buildPromptPayload env payload;
                  calls = [RequestJson, BuildSystemPrompt (workspace payload)] @ lookups
                            @ [GenerateObject system prompt]
              in (case generateObject env system prompt of
                    Inl error \<Rightarrow>
                      (\<lparr>body = ErrorBody ''The autonomous agent could not complete the request.'',
                        status = 500\<rparr>,
                       calls @ [ConsoleError ''Agent generation failed'' error])
                  | Inr agentResult \<Rightarrow>
                      (let merged = mergeWorkspace (clock env) (workspace payload)
                             \<lparr>u_tasks = result_tasks agentResult,
                              u_automations = result_automations agentResult,
                              u_decisions = result_decisions agentResult,
                              u_insights = result_insights agentResult,
                              u_knowledgeHighlights =
                                Some (knowledgeHighlights (workspace payload))\<rparr>;
                           response = \<lparr>response_reply = reply agentResult,
                                       response_workspace = merged,
                                       response_actionSummary = actionSummary agentResult\<rparr>
                       in (\<lparr>body = AgentResponse response, status = 200\<rparr>,
                           calls @ [NewDate]))))))"

section \<open>Example data\<close>

text \<open>
  A small workspace and a generated update, used where a statement is evaluated at a
  concrete input. The workspace's time stamp is what a browser whose clock runs five
  seconds ahead of the server's writes into it.
\<close>

definition example_task :: AgentTask where
  "example_task =
     \<lparr>task_id = ''task-1'', task_title = ''Plan onboarding launch'',
      task_description = ''Draft the launch plan'', task_status = Backlog,
      task_priority = High, task_due = None, task_owner = Some ''ops'',
      task_tags = Some [''launch'']\<rparr>"

definition example_prior :: AgentWorkspaceState where
  "example_prior =
     \<lparr>tasks = [example_task], automations = [], decisions = [],
      insights = [''Onboarding is the bottleneck''],
      knowledgeHighlights = [''Launch checklist''],
      updatedAt = ''2026-11-02T10:00:05.000Z''\<rparr>"

definition example_updates :: WorkspaceUpdates where
  "example_updates =
     \<lparr>u_tasks = [example_task\<lparr>task_status := InProgress\<rparr>], u_automations = [],
      u_decisions = [], u_insights = [], u_knowledgeHighlights = None\<rparr>"

definition example_task_json :: json where
  "example_task_json =
     JObject [(''id'', JString ''task-1''), (''title'', JString ''Plan onboarding launch''),
              (''description'', JString ''Draft the launch plan''),
              (''status'', JString ''in-progress''), (''priority'', JString ''high''),
              (''owner'', JString ''ops''), (''tags'', JArray [JString ''launch''])]"

definition example_output :: "nat \<Rightarrow> json" where
  "example_output n =
     JObject [(''reply'', JString ''On it.''),
              (''tasks'', JArray (replicate n example_task_json)),
              (''automations'', JArray []), (''decisions'', JArray []),
              (''insights'', JArray [JString ''Onboarding is the bottleneck'']),
              (''actionSummary'', JArray [JString ''Moved task-1 to in progress''])]"

definition example_request :: AgentAPIRequest where
  "example_request =
     \<lparr>messages =
        [\<lparr>message_id = ''m-1'', role = Assistant, content = ''Ready.'',
          createdAt = ''2026-11-02T09:59:00.000Z''\<rparr>,
         \<lparr>message_id = ''m-2'', role = User, content = ''Plan onboarding launch'',
          createdAt = ''2026-11-02T10:00:04.000Z''\<rparr>],
      workspace = example_prior\<rparr>"

definition example_env :: "(string + json) \<Rightarrow> Env" where
  "example_env answer =
     \<lparr>OPENAI_API_KEY = Some ''sk-test'', clock = ''2026-11-02T10:00:00.000Z'',
      languageModel = (\<lambda>system prompt. answer),
      buildSystemPrompt = (\<lambda>ws. ''You are ATLAS.''),
      formatConversationHistory = (\<lambda>ms. join newline (map content ms)),
      knowledgeBase = \<lparr>corpus = [], relevance = (\<lambda>query entry. 0), max_results = 3\<rparr>\<rparr>"

definition example_knowledge_base :: KnowledgeBase where
  "example_knowledge_base =
     \<lparr>corpus =
        [\<lparr>entry_title = ''Launch playbook'', entry_domain = ''operations'',
          entry_summary = ''Name one owner per launch.'',
          entry_takeaways = [''Freeze scope a week ahead'']\<rparr>],
      relevance = (\<lambda>query entry. if query = '''' then 0 else 1),
      max_results = 3\<rparr>"

section \<open>Properties of the merge\<close>

lemma mergeWorkspace_fields:
  "tasks (mergeWorkspace now prior updates) = u_tasks updates"
  "automations (mergeWorkspace now prior updates) = u_automations updates"
  "decisions (mergeWorkspace now prior updates) = u_decisions updates"
  "insights (mergeWorkspace now prior updates) = u_insights updates"
  "knowledgeHighlights (mergeWorkspace now prior updates) =
     nullish_coalesce (u_knowledgeHighlights updates) (knowledgeHighlights prior)"
  "updatedAt (mergeWorkspace now prior updates) = now"
  by (simp_all add: mergeWorkspace_def)

text \<open>
  C1. Whatever the prior workspace, the merged workspace's tasks, automations, decisions
  and insights are the generated lists themselves, in the generation's order: nothing of
  the prior lists is patched in, diffed or united. The merge does not touch a task: the
  ids of the merged tasks are the ids the generation gave, position by position, so when
  the generation returns the prior tasks followed by new ones, the prior tasks, ids
  included, come first and unchanged.
\<close>

theorem mergeWorkspace_replaces_lists:
  "tasks (mergeWorkspace now prior updates) = u_tasks updates \<and>
   automations (mergeWorkspace now prior updates) = u_automations updates \<and>
   decisions (mergeWorkspace now prior updates) = u_decisions updates \<and>
   insights (mergeWorkspace now prior updates) = u_insights updates \<and>
   map task_id (tasks (mergeWorkspace now prior updates)) = map task_id (u_tasks updates) \<and>
   tasks (mergeWorkspace now prior (updates\<lparr>u_tasks := tasks prior @ added\<rparr>)) =
     tasks prior @ added \<and>
   take (length (tasks prior))
     (map task_id (tasks (mergeWorkspace now prior (updates\<lparr>u_tasks := tasks prior @ added\<rparr>)))) =
     map task_id (tasks prior)"
  by (simp add: mergeWorkspace_fields)

text \<open>
  C2, as the code has it. The merged workspace's \<open>updatedAt\<close> is the clock reading the
  merge takes, whatever the prior value: it is strictly after the prior \<open>updatedAt\<close>
  exactly when the reading is, and of two successive merges the second carries the later
  stamp exactly when its reading is strictly later than the first's.
\<close>

theorem mergeWorkspace_updatedAt_is_clock:
  "updatedAt (mergeWorkspace now prior updates) = now \<and>
   (updatedAt prior < updatedAt (mergeWorkspace now prior updates)) = (updatedAt prior < now) \<and>
   (updatedAt (mergeWorkspace t1 prior u1)
      < updatedAt (mergeWorkspace t2 (mergeWorkspace t1 prior u1) u2)) = (t1 < t2)"
  by (simp add: mergeWorkspace_fields)

text \<open>
  Counterexample to C2 as written: a prior workspace stamped by a clock ahead of the server's
  is merged to an earlier stamp, and two merges that read the same clock value carry the
  same stamp.
\<close>

theorem mergeWorkspace_updatedAt_not_increasing:
  "\<not> updatedAt example_prior
       < updatedAt (mergeWorkspace ''2026-11-02T10:00:00.000Z'' example_prior example_updates) \<and>
   \<not> updatedAt (mergeWorkspace ''2026-11-02T10:00:00.000Z'' example_prior example_updates)
       < updatedAt (mergeWorkspace ''2026-11-02T10:00:00.000Z''
           (mergeWorkspace ''2026-11-02T10:00:00.000Z'' example_prior example_updates)
           example_updates)"
  by (simp add: mergeWorkspace_fields example_prior_def)

text \<open>
  C3, as the code has it. The merge is a function of its two arguments and of the clock
  reading: the reading decides \<open>updatedAt\<close> and nothing else, so two merges of the same
  arguments agree on every other field, and agree altogether when they read the same
  clock value.
\<close>

theorem mergeWorkspace_deterministic_up_to_clock:
  "mergeWorkspace t1 prior updates = (mergeWorkspace t2 prior updates)\<lparr>updatedAt := t1\<rparr> \<and>
   (mergeWorkspace t1 prior updates = mergeWorkspace t2 prior updates) = (t1 = t2)"
proof -
  have "updatedAt (mergeWorkspace t1 prior updates) = t1"
    and "updatedAt (mergeWorkspace t2 prior updates) = t2"
    by (simp_all add: mergeWorkspace_fields)
  then have "mergeWorkspace t1 prior updates = mergeWorkspace t2 prior updates \<Longrightarrow> t1 = t2"
    by metis
  moreover have
    "mergeWorkspace t1 prior updates = (mergeWorkspace t2 prior updates)\<lparr>updatedAt := t1\<rparr>"
    by (simp add: mergeWorkspace_def)
  ultimately show ?thesis by auto
qed

text \<open>
  Counterexample to C3 as written: the same prior workspace and the same generated fields,
  merged at two different moments, give two different results.
\<close>

theorem mergeWorkspace_depends_on_clock:
  "mergeWorkspace ''2026-11-02T10:00:00.000Z'' example_prior example_updates
     \<noteq> mergeWorkspace ''2026-11-02T10:00:07.000Z'' example_prior example_updates"
proof
  assume "mergeWorkspace ''2026-11-02T10:00:00.000Z'' example_prior example_updates
     = mergeWorkspace ''2026-11-02T10:00:07.000Z'' example_prior example_updates"
  then have "updatedAt (mergeWorkspace ''2026-11-02T10:00:00.000Z'' example_prior example_updates)
     = updatedAt (mergeWorkspace ''2026-11-02T10:00:07.000Z'' example_prior example_updates)"
    by simp
  then show False by (simp add: mergeWorkspace_fields)
qed

text \<open>
  C4. When the generated fields supply no \<open>knowledgeHighlights\<close>, the merged workspace
  keeps the prior workspace's \<open>knowledgeHighlights\<close> unchanged.
\<close>

theorem mergeWorkspace_knowledgeHighlights_fallback:
  "u_knowledgeHighlights updates = None \<Longrightarrow>
   knowledgeHighlights (mergeWorkspace now prior updates) = knowledgeHighlights prior"
  by (simp add: mergeWorkspace_fields nullish_coalesce_def)

theorem mergeWorkspace_knowledgeHighlights_fallback_witness:
  "u_knowledgeHighlights example_updates = None \<and>
   knowledgeHighlights (mergeWorkspace ''2026-11-02T10:00:00.000Z'' example_prior example_updates)
     = [''Launch checklist'']"
proof -
  have h: "u_knowledgeHighlights example_updates = None"
    by (simp add: example_updates_def)
  show ?thesis
    using h mergeWorkspace_knowledgeHighlights_fallback
      [OF h, of "''2026-11-02T10:00:00.000Z''" example_prior]
    by (simp add: example_prior_def)
qed

section \<open>Properties of the schema and of the handler\<close>

lemma those_length: "those ys = Some xs \<Longrightarrow> length xs = length ys"
  by (induction ys arbitrary: xs) (auto split: option.splits)

lemma z_array_length: "z_array element (JArray vs) = Some xs \<Longrightarrow> length xs = length vs"
  by (auto simp: z_array_def dest: those_length)

lemma z_max_rejects: "n < length vs \<Longrightarrow> z_max n (z_array element) (JArray vs) = None"
  by (auto simp: z_max_def split: option.splits dest: z_array_length)

lemma z_max_bound: "z_max n array v = Some xs \<Longrightarrow> length xs \<le> n"
  by (auto simp: z_max_def split: option.splits if_splits)

lemma z_required_max_bound:
  "z_required props key (z_max n array) = Some xs \<Longrightarrow> length xs \<le> n"
  by (auto simp: z_required_def split: option.splits dest: z_max_bound)

lemma z_required_max_rejects:
  "map_of props key = Some (JArray vs) \<Longrightarrow> n < length vs \<Longrightarrow>
   z_required props key (z_max n (z_array element)) = None"
  by (simp add: z_required_def z_max_rejects)

lemma agentResponseSchema_bounds:
  assumes "agentResponseSchema output = Some result"
  shows "length (result_tasks result) \<le> 12 \<and> length (result_automations result) \<le> 6 \<and>
         length (result_decisions result) \<le> 8 \<and> length (result_insights result) \<le> 8"
  using assms
  by (auto simp: agentResponseSchema_def bind_eq_Some_conv split: json.splits
           dest: z_required_max_bound)

lemma agentResponseSchema_rejects:
  assumes "(\<exists>vs. map_of props ''tasks'' = Some (JArray vs) \<and> 12 < length vs) \<or>
           (\<exists>vs. map_of props ''automations'' = Some (JArray vs) \<and> 6 < length vs) \<or>
           (\<exists>vs. map_of props ''decisions'' = Some (JArray vs) \<and> 8 < length vs) \<or>
           (\<exists>vs. map_of props ''insights'' = Some (JArray vs) \<and> 8 < length vs)"
  shows "agentResponseSchema (JObject props) = None"
  using assms
  by (auto simp: agentResponseSchema_def bind_eq_None_conv z_required_max_rejects)

lemma falsy_iff: "falsy v = (v = None \<or> v = Some '''')"
  by (simp add: falsy_def split: option.splits)

lemma POST_missing_credential:
  "falsy (OPENAI_API_KEY env) \<Longrightarrow>
   POST env request =
     (\<lparr>body = ErrorBody
         ''Missing OPENAI_API_KEY. Set the environment variable to connect the autonomous agent.'',
       status = 500\<rparr>, [])"
  by (simp add: POST_def)

lemma POST_not_json:
  "\<not> falsy (OPENAI_API_KEY env) \<Longrightarrow>
   POST env NotJson = (\<lparr>body = ErrorBody ''Invalid request payload.'', status = 400\<rparr>, [RequestJson])"
  by (simp add: POST_def)

lemma buildPromptPayload_calls:
  "snd (buildPromptPayload env request) =
     [SearchKnowledgeBase (nullish_coalesce (map_option content (latestUserMessage request)) '''') None,
      FormatConversationHistory (messages request)]"
  by (simp add: buildPromptPayload_def Let_def)

lemma POST_generation_failed:
  assumes "\<not> falsy (OPENAI_API_KEY env)"
    and "generateObject env (buildSystemPrompt env (workspace payload))
           (fst (buildPromptPayload env payload)) = Inl cause"
  shows "POST env (Json payload) =
     (\<lparr>body = ErrorBody ''The autonomous agent could not complete the request.'', status = 500\<rparr>,
      [RequestJson, BuildSystemPrompt (workspace payload)] @ snd (buildPromptPayload env payload)
        @ [GenerateObject (buildSystemPrompt env (workspace payload))
             (fst (buildPromptPayload env payload)),
           ConsoleError ''Agent generation failed'' cause])"
  using assms by (simp add: POST_def Let_def split_beta)

lemma POST_generated:
  assumes "\<not> falsy (OPENAI_API_KEY env)"
    and "generateObject env (buildSystemPrompt env (workspace payload))
           (fst (buildPromptPayload env payload)) = Inr result"
  shows "POST env (Json payload) =
     (\<lparr>body = AgentResponse
         \<lparr>response_reply = reply result,
          response_workspace =
            mergeWorkspace (clock env) (workspace payload)
              \<lparr>u_tasks = result_tasks result, u_automations = result_automations result,
               u_decisions = result_decisions result, u_insights = result_insights result,
               u_knowledgeHighlights = Some (knowledgeHighlights (workspace payload))\<rparr>,
          response_actionSummary = actionSummary result\<rparr>,
       status = 200\<rparr>,
      [RequestJson, BuildSystemPrompt (workspace payload)] @ snd (buildPromptPayload env payload)
        @ [GenerateObject (buildSystemPrompt env (workspace payload))
             (fst (buildPromptPayload env payload)),
           NewDate])"
  using assms by (simp add: POST_def Let_def split_beta)

lemma generateObject_schema_violation:
  "languageModel env system prompt = Inr output \<Longrightarrow> agentResponseSchema output = None \<Longrightarrow>
   generateObject env system prompt = Inl (SchemaViolation output)"
  by (simp add: generateObject_def)

lemma find_append_None:
  "find P xs = None \<Longrightarrow> find P (xs @ ys) = find P ys"
  by (induction xs) (auto split: if_splits)

lemma latestUserMessage_last_user:
  assumes "messages request = earlier @ message # later"
    and "role message = User"
    and "\<forall>m \<in> set later. role m \<noteq> User"
  shows "latestUserMessage request = Some message"
proof -
  have "find (\<lambda>m. role m = User) (rev later) = None"
    using assms(3) by (simp add: find_None_iff)
  then show ?thesis
    using assms(1,2) by (simp add: latestUserMessage_def find_append_None)
qed

lemma latestUserMessage_no_user:
  assumes "\<forall>m \<in> set (messages request). role m \<noteq> User"
  shows "latestUserMessage request = None"
  using assms by (simp add: latestUserMessage_def find_None_iff)

lemma searchKnowledgeBase_bounded:
  "length (searchKnowledgeBase kb query domain_filter) \<le> max_results kb \<and>
   set (searchKnowledgeBase kb query domain_filter) \<subseteq> set (corpus kb)"
proof -
  have "set (take (max_results kb) xs) \<subseteq> set xs" for xs :: "KnowledgeEntry list"
    by (rule set_take_subset)
  then show ?thesis
    by (fastforce simp: searchKnowledgeBase_def)
qed

text \<open>
  The bound is exact: an answer with twelve tasks validates.
\<close>

lemma agentResponseSchema_accepts_twelve_tasks:
  "map_option (\<lambda>result. length (result_tasks result)) (agentResponseSchema (example_output 12))
     = Some 12"
  by (simp add: example_output_def example_task_json_def agentResponseSchema_def
        z_required_def z_optional_def z_string_def z_enum_def z_array_def z_max_def
        task_schema_def eval_nat_numeral)

text \<open>
  C5. The schema enforces the bounds before the merge can run. An answer of the model
  whose \<open>tasks\<close> array has more than 12 elements (13, say), or whose \<open>automations\<close>
  array has more than 6, or whose \<open>decisions\<close> or \<open>insights\<close> array has more than 8,
  does not validate; \<open>generateObject\<close> fails on it with a \<open>GenerationError\<close>; and the
  handler answers 500 without reading the clock for a merge and without a workspace in
  the body.
\<close>

theorem over_bound_answer_never_merged:
  assumes over:
    "(\<exists>vs. map_of props ''tasks'' = Some (JArray vs) \<and> 12 < length vs) \<or>
     (\<exists>vs. map_of props ''automations'' = Some (JArray vs) \<and> 6 < length vs) \<or>
     (\<exists>vs. map_of props ''decisions'' = Some (JArray vs) \<and> 8 < length vs) \<or>
     (\<exists>vs. map_of props ''insights'' = Some (JArray vs) \<and> 8 < length vs)"
    and answer:
      "languageModel env (buildSystemPrompt env (workspace payload))
         (fst (buildPromptPayload env payload)) = Inr (JObject props)"
    and key: "OPENAI_API_KEY env = Some k" "k \<noteq> ''''"
  shows
    "agentResponseSchema (JObject props) = None \<and>
     generateObject env (buildSystemPrompt env (workspace payload))
        (fst (buildPromptPayload env payload)) = Inl (SchemaViolation (JObject props)) \<and>
     fst (POST env (Json payload)) =
        \<lparr>body = ErrorBody ''The autonomous agent could not complete the request.'',
         status = 500\<rparr> \<and>
     NewDate \<notin> set (snd (POST env (Json payload)))"
proof -
  have rejected: "agentResponseSchema (JObject props) = None"
    using over by (rule agentResponseSchema_rejects)
  have failed: "generateObject env (buildSystemPrompt env (workspace payload))
        (fst (buildPromptPayload env payload)) = Inl (SchemaViolation (JObject props))"
    using answer rejected by (rule generateObject_schema_violation)
  have present: "\<not> falsy (OPENAI_API_KEY env)"
    using key by (simp add: falsy_def)
  note post = POST_generation_failed [OF present failed]
  have "NewDate \<notin> set (snd (POST env (Json payload)))"
    by (simp add: post buildPromptPayload_calls)
  with rejected failed post show ?thesis by simp
qed

theorem over_bound_answer_never_merged_witness:
  "agentResponseSchema (example_output 13) = None \<and>
   fst (POST (example_env (Inr (example_output 13))) (Json example_request)) =
     \<lparr>body = ErrorBody ''The autonomous agent could not complete the request.'',
      status = 500\<rparr> \<and>
   NewDate \<notin> set (snd (POST (example_env (Inr (example_output 13))) (Json example_request)))"
proof -
  let ?props = "[(''reply'', JString ''On it.''),
              (''tasks'', JArray (replicate 13 example_task_json)),
              (''automations'', JArray []), (''decisions'', JArray []),
              (''insights'', JArray [JString ''Onboarding is the bottleneck'']),
              (''actionSummary'', JArray [JString ''Moved task-1 to in progress''])]"
  let ?env = "example_env (Inr (example_output 13))"
  have over:
    "(\<exists>vs. map_of ?props ''tasks'' = Some (JArray vs) \<and> 12 < length vs) \<or>
     (\<exists>vs. map_of ?props ''automations'' = Some (JArray vs) \<and> 6 < length vs) \<or>
     (\<exists>vs. map_of ?props ''decisions'' = Some (JArray vs) \<and> 8 < length vs) \<or>
     (\<exists>vs. map_of ?props ''insights'' = Some (JArray vs) \<and> 8 < length vs)"
    by simp
  have answer:
    "languageModel ?env (buildSystemPrompt ?env (workspace example_request))
       (fst (buildPromptPayload ?env example_request)) = Inr (JObject ?props)"
    by (simp add: example_env_def example_output_def)
  have key: "OPENAI_API_KEY ?env = Some ''sk-test''" "''sk-test'' \<noteq> ''''"
    by (simp_all add: example_env_def)
  show ?thesis
    using over_bound_answer_never_merged [OF over answer key]
    by (simp add: example_output_def)
qed

text \<open>
  C6. When the credential is absent from the environment (the variable is not set, or
  set to the empty string), the handler answers 500 with the missing-credential message
  and has made no call at all: the body is not read, nothing is retrieved, nothing is
  generated.
\<close>

theorem POST_without_credential:
  "OPENAI_API_KEY env = None \<or> OPENAI_API_KEY env = Some '''' \<Longrightarrow>
   POST env request =
     (\<lparr>body = ErrorBody
         ''Missing OPENAI_API_KEY. Set the environment variable to connect the autonomous agent.'',
       status = 500\<rparr>, [])"
  by (rule POST_missing_credential) (simp add: falsy_iff)

theorem POST_without_credential_witness:
  "OPENAI_API_KEY ((example_env (Inr (example_output 1)))\<lparr>OPENAI_API_KEY := None\<rparr>) = None \<and>
   POST ((example_env (Inr (example_output 1)))\<lparr>OPENAI_API_KEY := None\<rparr>) (Json example_request) =
     (\<lparr>body = ErrorBody
         ''Missing OPENAI_API_KEY. Set the environment variable to connect the autonomous agent.'',
       status = 500\<rparr>, [])"
proof -
  let ?env = "(example_env (Inr (example_output 1)))\<lparr>OPENAI_API_KEY := None\<rparr>"
  have h: "OPENAI_API_KEY ?env = None \<or> OPENAI_API_KEY ?env = Some ''''"
    by simp
  show ?thesis
    using POST_without_credential [OF h, of "Json example_request"] by simp
qed

text \<open>
  C7. With the credential present, a request whose body is not JSON is answered 400 with
  the body \<open>{error: "Invalid request payload."}\<close>; the only call made is the read of the
  request body, so no generation is attempted.
\<close>

theorem POST_body_not_json:
  assumes "OPENAI_API_KEY env = Some k" and "k \<noteq> ''''"
  shows "POST env NotJson =
           (\<lparr>body = ErrorBody ''Invalid request payload.'', status = 400\<rparr>, [RequestJson]) \<and>
         (\<forall>system prompt. GenerateObject system prompt \<notin> set (snd (POST env NotJson)))"
proof -
  have "\<not> falsy (OPENAI_API_KEY env)"
    using assms by (simp add: falsy_def)
  then show ?thesis
    by (simp add: POST_not_json)
qed

theorem POST_body_not_json_witness:
  "POST (example_env (Inr (example_output 1))) NotJson =
     (\<lparr>body = ErrorBody ''Invalid request payload.'', status = 400\<rparr>, [RequestJson])"
proof -
  have key: "OPENAI_API_KEY (example_env (Inr (example_output 1))) = Some ''sk-test''"
    and nonempty: "''sk-test'' \<noteq> ''''"
    by (simp_all add: example_env_def)
  show ?thesis
    using POST_body_not_json [OF key nonempty] by simp
qed

text \<open>
  C8. With the credential present and a JSON body, when the generation fails, whatever the
  cause, the handler answers 500 with exactly the body
  \<open>{error: "The autonomous agent could not complete the request."}\<close>: the cause goes to
  the log (the last call is \<open>console.error\<close> with it) and not into the response, and
  no merge is made. More generally, every response of the handler either is an error body
  with a status other than 200, or is a 200 whose workspace is the full merge of the
  request's workspace with the validated result: there is nothing in between.
\<close>

theorem POST_generation_failure_is_generic:
  assumes key: "OPENAI_API_KEY env = Some k" "k \<noteq> ''''"
    and failure:
      "generateObject env (buildSystemPrompt env (workspace payload))
         (fst (buildPromptPayload env payload)) = Inl cause"
  shows
    "fst (POST env (Json payload)) =
       \<lparr>body = ErrorBody ''The autonomous agent could not complete the request.'',
        status = 500\<rparr> \<and>
     last (snd (POST env (Json payload))) = ConsoleError ''Agent generation failed'' cause \<and>
     NewDate \<notin> set (snd (POST env (Json payload))) \<and>
     (case body (fst (POST env' request')) of
        ErrorBody message \<Rightarrow> status (fst (POST env' request')) \<noteq> 200
      | AgentResponse response \<Rightarrow>
          status (fst (POST env' request')) = 200 \<and>
          (\<exists>payload' result.
              request' = Json payload' \<and>
              generateObject env' (buildSystemPrompt env' (workspace payload'))
                (fst (buildPromptPayload env' payload')) = Inr result \<and>
              response_workspace response =
                mergeWorkspace (clock env') (workspace payload')
                  \<lparr>u_tasks = result_tasks result,
                   u_automations = result_automations result,
                   u_decisions = result_decisions result,
                   u_insights = result_insights result,
                   u_knowledgeHighlights = Some (knowledgeHighlights (workspace payload'))\<rparr>))"
proof -
  have present: "\<not> falsy (OPENAI_API_KEY env)"
    using key by (simp add: falsy_def)
  note post = POST_generation_failed [OF present failure]
  have response: "fst (POST env (Json payload)) =
       \<lparr>body = ErrorBody ''The autonomous agent could not complete the request.'',
        status = 500\<rparr>"
    by (simp add: post)
  have logged: "last (snd (POST env (Json payload))) = ConsoleError ''Agent generation failed'' cause"
    by (simp add: post)
  have unmerged: "NewDate \<notin> set (snd (POST env (Json payload)))"
    by (simp add: post buildPromptPayload_calls)
  have all_or_nothing:
    "(case body (fst (POST env' request')) of
        ErrorBody message \<Rightarrow> status (fst (POST env' request')) \<noteq> 200
      | AgentResponse response \<Rightarrow>
          status (fst (POST env' request')) = 200 \<and>
          (\<exists>payload' result.
              request' = Json payload' \<and>
              generateObject env' (buildSystemPrompt env' (workspace payload'))
                (fst (buildPromptPayload env' payload')) = Inr result \<and>
              response_workspace response =
                mergeWorkspace (clock env') (workspace payload')
                  \<lparr>u_tasks = result_tasks result,
                   u_automations = result_automations result,
                   u_decisions = result_decisions result,
                   u_insights = result_insights result,
                   u_knowledgeHighlights = Some (knowledgeHighlights (workspace payload'))\<rparr>))"
  proof (cases "falsy (OPENAI_API_KEY env')")
    case True
    then show ?thesis by (simp add: POST_missing_credential)
  next
    case present': False
    show ?thesis
    proof (cases request')
      case NotJson
      with present' show ?thesis by (simp add: POST_not_json)
    next
      case (Json payload')
      show ?thesis
      proof (cases "generateObject env' (buildSystemPrompt env' (workspace payload'))
                (fst (buildPromptPayload env' payload'))")
        case (Inl cause')
        show ?thesis
          unfolding Json by (simp add: POST_generation_failed [OF present' Inl])
      next
        case (Inr result)
        show ?thesis
          unfolding Json using Inr by (simp add: POST_generated [OF present' Inr])
      qed
    qed
  qed
  from response logged unmerged all_or_nothing show ?thesis by blast
qed

theorem POST_generation_failure_is_generic_witness:
  "fst (POST (example_env (Inl ''socket hang up'')) (Json example_request)) =
     \<lparr>body = ErrorBody ''The autonomous agent could not complete the request.'',
      status = 500\<rparr> \<and>
   last (snd (POST (example_env (Inl ''socket hang up'')) (Json example_request))) =
     ConsoleError ''Agent generation failed'' (UpstreamFailure ''socket hang up'')"
proof -
  let ?env = "example_env (Inl ''socket hang up'')"
  have key: "OPENAI_API_KEY ?env = Some ''sk-test''" "''sk-test'' \<noteq> ''''"
    by (simp_all add: example_env_def)
  have failure:
    "generateObject ?env (buildSystemPrompt ?env (workspace example_request))
       (fst (buildPromptPayload ?env example_request)) = Inl (UpstreamFailure ''socket hang up'')"
    by (simp add: generateObject_def example_env_def)
  show ?thesis
    using POST_generation_failure_is_generic [OF key failure] by simp
qed

text \<open>
  C9. \<open>buildPromptPayload\<close> applies the knowledge search to exactly one query, with no
  domain filter: the content of the last message of the list whose role is \<open>user\<close>,
  and the empty string when no message has that role. The prompt it returns is built from
  the result of that application, and the call it records is that application. Without a
  user message nothing fails: the prompt is built from the search on the empty query like
  from any other, with the placeholder line when that search finds nothing, and for every
  request that passes the credential check and whose body is JSON the handler goes on to
  the generation with this prompt. The search itself returns, on the empty query, a list of
  at most \<open>max_results\<close> entries of the corpus.
\<close>

theorem buildPromptPayload_searches_latest_user_message:
  "(let summaryOf = (\<lambda>query.
          trim (join (newline @ newline)
            (map renderEntry (searchKnowledgeBase (knowledgeBase env) query None))));
        promptWith = (\<lambda>knowledge.
          join newline
            [''Context from curated knowledge base (use when helpful):'',
             knowledge,
             '''',
             ''Conversation history:'',
             formatConversationHistory env (messages request),
             '''',
             ''Instructions:'',
             ''- Return thoughtful updates even if you need clarification; outline reasonable assumptions and next steps.'',
             ''- Maintain continuity. Preserve task IDs and automation IDs from earlier turns.'',
             ''- If something is blocked, surface a direct ask with a suggested owner.''])
    in
      (messages request = earlier @ message # later \<and> role message = User \<and>
         (\<forall>m \<in> set later. role m \<noteq> User) \<longrightarrow>
         buildPromptPayload env request =
           (promptWith
              (if summaryOf (content message) = ''''
                 then ''No directly relevant knowledge snippets located.''
                 else summaryOf (content message)),
            [SearchKnowledgeBase (content message) None,
             FormatConversationHistory (messages request)])) \<and>
      ((\<forall>m \<in> set (messages request). role m \<noteq> User) \<longrightarrow>
         buildPromptPayload env request =
           (promptWith
              (if summaryOf '''' = ''''
                 then ''No directly relevant knowledge snippets located.''
                 else summaryOf ''''),
            [SearchKnowledgeBase '''' None, FormatConversationHistory (messages request)])) \<and>
      ((\<forall>m \<in> set (messages request). role m \<noteq> User) \<and>
         searchKnowledgeBase (knowledgeBase env) '''' None = [] \<longrightarrow>
         fst (buildPromptPayload env request) =
           promptWith ''No directly relevant knowledge snippets located.'') \<and>
      (OPENAI_API_KEY env = Some k \<and> k \<noteq> '''' \<longrightarrow>
         take 5 (snd (POST env (Json request))) =
           [RequestJson, BuildSystemPrompt (workspace request)]
             @ snd (buildPromptPayload env request)
             @ [GenerateObject (buildSystemPrompt env (workspace request))
                  (fst (buildPromptPayload env request))]) \<and>
      length (searchKnowledgeBase (knowledgeBase env) '''' None)
        \<le> max_results (knowledgeBase env) \<and>
      set (searchKnowledgeBase (knowledgeBase env) '''' None)
        \<subseteq> set (corpus (knowledgeBase env)))"
proof -
  define summaryOf where "summaryOf = (\<lambda>query.
          trim (join (newline @ newline)
            (map renderEntry (searchKnowledgeBase (knowledgeBase env) query None))))"
  define promptWith where "promptWith = (\<lambda>knowledge.
          join newline
            [''Context from curated knowledge base (use when helpful):'',
             knowledge,
             '''',
             ''Conversation history:'',
             formatConversationHistory env (messages request),
             '''',
             ''Instructions:'',
             ''- Return thoughtful updates even if you need clarification; outline reasonable assumptions and next steps.'',
             ''- Maintain continuity. Preserve task IDs and automation IDs from earlier turns.'',
             ''- If something is blocked, surface a direct ask with a suggested owner.''])"
  have built: "buildPromptPayload env request =
      (promptWith
         (if summaryOf query = ''''
            then ''No directly relevant knowledge snippets located.''
            else summaryOf query),
       [SearchKnowledgeBase query None, FormatConversationHistory (messages request)])"
    if "nullish_coalesce (map_option content (latestUserMessage request)) '''' = query"
    for query
    using that by (simp add: buildPromptPayload_def Let_def summaryOf_def promptWith_def)
  have latest: "buildPromptPayload env request =
      (promptWith
         (if summaryOf (content message) = ''''
            then ''No directly relevant knowledge snippets located.''
            else summaryOf (content message)),
       [SearchKnowledgeBase (content message) None,
        FormatConversationHistory (messages request)])"
    if "messages request = earlier @ message # later" "role message = User"
      "\<forall>m \<in> set later. role m \<noteq> User"
    using latestUserMessage_last_user [OF that]
    by (intro built) (simp add: nullish_coalesce_def)
  have none: "buildPromptPayload env request =
      (promptWith
         (if summaryOf '''' = ''''
            then ''No directly relevant knowledge snippets located.''
            else summaryOf ''''),
       [SearchKnowledgeBase '''' None, FormatConversationHistory (messages request)])"
    if "\<forall>m \<in> set (messages request). role m \<noteq> User"
    using latestUserMessage_no_user [OF that]
    by (intro built) (simp add: nullish_coalesce_def)
  have placeholder: "fst (buildPromptPayload env request) =
      promptWith ''No directly relevant knowledge snippets located.''"
    if "\<forall>m \<in> set (messages request). role m \<noteq> User"
      "searchKnowledgeBase (knowledgeBase env) '''' None = []"
  proof -
    have "summaryOf '''' = ''''"
      using that(2) by (simp add: summaryOf_def trim_def)
    with none [OF that(1)] show ?thesis by simp
  qed
  have handler: "take 5 (snd (POST env (Json request))) =
      [RequestJson, BuildSystemPrompt (workspace request)]
        @ snd (buildPromptPayload env request)
        @ [GenerateObject (buildSystemPrompt env (workspace request))
             (fst (buildPromptPayload env request))]"
    if "OPENAI_API_KEY env = Some k" "k \<noteq> ''''"
  proof -
    have present: "\<not> falsy (OPENAI_API_KEY env)"
      using that by (simp add: falsy_def)
    show ?thesis
    proof (cases "generateObject env (buildSystemPrompt env (workspace request))
                (fst (buildPromptPayload env request))")
      case (Inl cause)
      show ?thesis
        by (simp add: POST_generation_failed [OF present Inl] buildPromptPayload_calls)
    next
      case (Inr result)
      show ?thesis
        by (simp add: POST_generated [OF present Inr] buildPromptPayload_calls)
    qed
  qed
  note bounded = searchKnowledgeBase_bounded [of "knowledgeBase env" "''''" None]
  from latest none placeholder handler bounded
  show ?thesis
    unfolding Let_def summaryOf_def promptWith_def by blast
qed

theorem buildPromptPayload_searches_latest_user_message_witness:
  "buildPromptPayload
     ((example_env (Inr (example_output 1)))\<lparr>knowledgeBase := example_knowledge_base\<rparr>)
     example_request =
     (join newline
        [''Context from curated knowledge base (use when helpful):'',
         ''Launch playbook (operations)'' @ newline @ ''Name one owner per launch.'' @ newline
           @ ''- Freeze scope a week ahead'',
         '''',
         ''Conversation history:'',
         ''Ready.'' @ newline @ ''Plan onboarding launch'',
         '''',
         ''Instructions:'',
         ''- Return thoughtful updates even if you need clarification; outline reasonable assumptions and next steps.'',
         ''- Maintain continuity. Preserve task IDs and automation IDs from earlier turns.'',
         ''- If something is blocked, surface a direct ask with a suggested owner.''],
      [SearchKnowledgeBase ''Plan onboarding launch'' None,
       FormatConversationHistory (messages example_request)]) \<and>
   buildPromptPayload (example_env (Inr (example_output 1)))
     (example_request\<lparr>messages := [hd (messages example_request)]\<rparr>) =
     (join newline
        [''Context from curated knowledge base (use when helpful):'',
         ''No directly relevant knowledge snippets located.'',
         '''',
         ''Conversation history:'',
         ''Ready.'',
         '''',
         ''Instructions:'',
         ''- Return thoughtful updates even if you need clarification; outline reasonable assumptions and next steps.'',
         ''- Maintain continuity. Preserve task IDs and automation IDs from earlier turns.'',
         ''- If something is blocked, surface a direct ask with a suggested owner.''],
      [SearchKnowledgeBase '''' None,
       FormatConversationHistory [hd (messages example_request)]]) \<and>
   take 5 (snd (POST (example_env (Inr (example_output 1))) (Json example_request))) =
     [RequestJson, BuildSystemPrompt example_prior,
      SearchKnowledgeBase ''Plan onboarding launch'' None,
      FormatConversationHistory (messages example_request),
      GenerateObject ''You are ATLAS.''
        (fst (buildPromptPayload (example_env (Inr (example_output 1))) example_request))]"
proof -
  let ?env = "example_env (Inr (example_output 1))"
  let ?env_kb = "?env\<lparr>knowledgeBase := example_knowledge_base\<rparr>"
  let ?assistant = "\<lparr>message_id = ''m-1'', role = Assistant, content = ''Ready.'',
          createdAt = ''2026-11-02T09:59:00.000Z''\<rparr>"
  let ?user = "\<lparr>message_id = ''m-2'', role = User, content = ''Plan onboarding launch'',
          createdAt = ''2026-11-02T10:00:04.000Z''\<rparr>"
  let ?silent = "example_request\<lparr>messages := [hd (messages example_request)]\<rparr>"
  have with_user: "messages example_request = [?assistant] @ ?user # [] \<and> role ?user = User \<and>
      (\<forall>m \<in> set []. role m \<noteq> User)"
    by (simp add: example_request_def)
  have without_user: "\<forall>m \<in> set (messages ?silent). role m \<noteq> User"
    by (simp add: example_request_def)
  have nothing_found: "searchKnowledgeBase (knowledgeBase ?env) '''' None = []"
    by (simp add: example_env_def searchKnowledgeBase_def)
  have key: "OPENAI_API_KEY ?env = Some ''sk-test'' \<and> ''sk-test'' \<noteq> ''''"
    by (simp add: example_env_def)
  have one: "buildPromptPayload ?env_kb example_request =
     (join newline
        [''Context from curated knowledge base (use when helpful):'',
         ''Launch playbook (operations)'' @ newline @ ''Name one owner per launch.'' @ newline
           @ ''- Freeze scope a week ahead'',
         '''',
         ''Conversation history:'',
         ''Ready.'' @ newline @ ''Plan onboarding launch'',
         '''',
         ''Instructions:'',
         ''- Return thoughtful updates even if you need clarification; outline reasonable assumptions and next steps.'',
         ''- Maintain continuity. Preserve task IDs and automation IDs from earlier turns.'',
         ''- If something is blocked, surface a direct ask with a suggested owner.''],
      [SearchKnowledgeBase ''Plan onboarding launch'' None,
       FormatConversationHistory (messages example_request)])"
    using with_user
      buildPromptPayload_searches_latest_user_message
        [of ?env_kb example_request "[?assistant]" ?user "[]"]
    by (simp add: Let_def example_env_def example_knowledge_base_def searchKnowledgeBase_def
        renderEntry_def trim_def is_white_space_def newline_def example_request_def)
  have two: "buildPromptPayload ?env ?silent =
     (join newline
        [''Context from curated knowledge base (use when helpful):'',
         ''No directly relevant knowledge snippets located.'',
         '''',
         ''Conversation history:'',
         ''Ready.'',
         '''',
         ''Instructions:'',
         ''- Return thoughtful updates even if you need clarification; outline reasonable assumptions and next steps.'',
         ''- Maintain continuity. Preserve task IDs and automation IDs from earlier turns.'',
         ''- If something is blocked, surface a direct ask with a suggested owner.''],
      [SearchKnowledgeBase '''' None,
       FormatConversationHistory [hd (messages example_request)]])"
    using without_user nothing_found
      buildPromptPayload_searches_latest_user_message [of ?env ?silent]
    by (simp add: Let_def example_env_def searchKnowledgeBase_def trim_def
        example_request_def prod_eq_iff)
  have three: "take 5 (snd (POST ?env (Json example_request))) =
     [RequestJson, BuildSystemPrompt example_prior,
      SearchKnowledgeBase ''Plan onboarding launch'' None,
      FormatConversationHistory (messages example_request),
      GenerateObject ''You are ATLAS.'' (fst (buildPromptPayload ?env example_request))]"
    using key with_user
      buildPromptPayload_searches_latest_user_message
        [of ?env example_request "[?assistant]" ?user "[]" "''sk-test''"]
    by (simp add: Let_def example_env_def example_request_def)
  from one two three show ?thesis by blast
qed

text \<open>
  C10. The schema has no \<open>knowledgeHighlights\<close> key: a \<open>knowledgeHighlights\<close> property
  in the model's answer changes nothing in what the schema returns. The handler passes the
  request workspace's own \<open>knowledgeHighlights\<close> to the merge, so every 200 response
  carries a workspace whose \<open>knowledgeHighlights\<close> are those of the request's workspace.
\<close>

theorem POST_keeps_request_knowledgeHighlights:
  "(status (fst (POST env request)) = 200 \<longrightarrow>
      (\<exists>payload response.
          request = Json payload \<and>
          body (fst (POST env request)) = AgentResponse response \<and>
          knowledgeHighlights (response_workspace response) =
            knowledgeHighlights (workspace payload))) \<and>
   agentResponseSchema (JObject ((''knowledgeHighlights'', v) # props)) =
     agentResponseSchema (JObject props)"
proof -
  have schema: "agentResponseSchema (JObject ((''knowledgeHighlights'', v) # props)) =
     agentResponseSchema (JObject props)"
    by (simp add: agentResponseSchema_def z_required_def)
  have kept: "\<exists>payload response.
          request = Json payload \<and>
          body (fst (POST env request)) = AgentResponse response \<and>
          knowledgeHighlights (response_workspace response) =
            knowledgeHighlights (workspace payload)"
    if ok: "status (fst (POST env request)) = 200"
  proof (cases "falsy (OPENAI_API_KEY env)")
    case True
    with ok show ?thesis by (simp add: POST_missing_credential)
  next
    case present: False
    show ?thesis
    proof (cases request)
      case NotJson
      with ok present show ?thesis by (simp add: POST_not_json)
    next
      case (Json payload)
      show ?thesis
      proof (cases "generateObject env (buildSystemPrompt env (workspace payload))
                (fst (buildPromptPayload env payload))")
        case (Inl cause)
        with ok show ?thesis
          unfolding Json by (simp add: POST_generation_failed [OF present Inl])
      next
        case (Inr result)
        show ?thesis
          unfolding Json
          by (simp add: POST_generated [OF present Inr] mergeWorkspace_fields nullish_coalesce_def)
      qed
    qed
  qed
  from schema kept show ?thesis by blast
qed

theorem POST_keeps_request_knowledgeHighlights_witness:
  "status (fst (POST (example_env (Inr (example_output 1))) (Json example_request))) = 200 \<and>
   (\<exists>response.
      body (fst (POST (example_env (Inr (example_output 1))) (Json example_request))) =
        AgentResponse response \<and>
      knowledgeHighlights (response_workspace response) = [''Launch checklist''])"
proof -
  let ?env = "example_env (Inr (example_output 1))"
  have accepted: "agentResponseSchema (example_output 1) \<noteq> None"
    by (simp add: example_output_def example_task_json_def agentResponseSchema_def
        z_required_def z_optional_def z_string_def z_enum_def z_array_def z_max_def
        task_schema_def)
  then obtain result where "agentResponseSchema (example_output 1) = Some result"
    by blast
  then have generated:
    "generateObject ?env (buildSystemPrompt ?env (workspace example_request))
       (fst (buildPromptPayload ?env example_request)) = Inr result"
    by (simp add: generateObject_def example_env_def)
  have present: "\<not> falsy (OPENAI_API_KEY ?env)"
    by (simp add: falsy_def example_env_def)
  have ok: "status (fst (POST ?env (Json example_request))) = 200"
    using POST_generated [OF present generated] by simp
  have "knowledgeHighlights (workspace example_request) = [''Launch checklist'']"
    by (simp add: example_request_def example_prior_def)
  with ok POST_keeps_request_knowledgeHighlights [of ?env "Json example_request"]
  show ?thesis by auto
qed

end
